theory Spec2Isabelle
  imports Main
begin

section \<open>telecmd: chat messages dispatched to local commands\<close>

text \<open>
  A shallow embedding of \<^verbatim>\<open>internal/telecmd/telecmd.go\<close>, \<^verbatim>\<open>internal/telecmd/types.go\<close>
  and of the matching loop of the root \<^verbatim>\<open>main.go\<close>. Go strings are byte sequences and are
  modelled as \<^typ>\<open>string\<close>; Go values of type \<^verbatim>\<open>error\<close> are modelled by their message,
  \<^verbatim>\<open>nil\<close> being \<^term>\<open>None\<close>. What the program obtains from its libraries and from the
  operating system (the regular-expression engine, the JSON decoder, the inherited
  environment, the lookup of an executable in \<^verbatim>\<open>PATH\<close>, the outcome of running a process) is
  a parameter of the function that uses it.
\<close>

subsection \<open>Data model (types.go and the parts of tgbotapi the code reads)\<close>

record Rule =
  Name :: string
  Pattern :: string
  WorkingDirectory :: string
  UseStdin :: bool
  Environment :: "string list"
  Command :: "string list"

record Config =
  BotToken :: string
  Debug :: bool
  Rules :: "Rule list"
  CommandTimeout :: string

text \<open>The zero value \<^verbatim>\<open>Rule{}\<close>.\<close>

definition zeroRule :: Rule where
  "zeroRule = \<lparr>Name = [], Pattern = [], WorkingDirectory = [], UseStdin = False,
     Environment = [], Command = []\<rparr>"

record User =
  User_ID :: int
  FirstName :: string

record Chat =
  Chat_ID :: int

text \<open>
  \<^verbatim>\<open>tgbotapi.Message\<close>: the fields the program reads. The three pointer fields may be
  \<^verbatim>\<open>nil\<close>.
\<close>

datatype Message = Message
  (MessageID: int)
  (From: "User option")
  (Chat: "Chat option")
  (ReplyToMessage: "Message option")
  (Text: string)

subsection \<open>Formatting (fmt, verb \<^verbatim>\<open>%d\<close>)\<close>

definition digitChar :: "nat \<Rightarrow> char" where
  "digitChar d = char_of (of_char (CHR ''0'') + d)"

function showNat :: "nat \<Rightarrow> string" where
  "showNat n = (if n < 10 then [digitChar n] else showNat (n div 10) @ [digitChar (n mod 10)])"
  by pat_completeness auto
termination
  by (relation "measure (\<lambda>n. n)") auto

declare showNat.simps [simp del]

definition showInt :: "int \<Rightarrow> string" where
  "showInt i = (if i < 0 then CHR ''-'' # showNat (nat (- i)) else showNat (nat i))"

subsection \<open>Configuration validation (types.go)\<close>

text \<open>
  \<^verbatim>\<open>regexp.Compile\<close> is the parameter \<open>compile\<close>: the error it returns for a pattern, if
  any.
\<close>

definition Rule_Validate :: "(string \<Rightarrow> string option) \<Rightarrow> Rule \<Rightarrow> string option" where
  "Rule_Validate compile r =
     (case compile (Pattern r) of
        Some err \<Rightarrow> Some (''invalid regex: '' @ err)
      | None \<Rightarrow> if length (Command r) = 0 then Some ''invalid command'' else None)"

fun validateRules :: "(string \<Rightarrow> string option) \<Rightarrow> nat \<Rightarrow> Rule list \<Rightarrow> string option" where
  "validateRules compile i [] = None"
| "validateRules compile i (rule # rest) =
     (case Rule_Validate compile rule of
        Some err \<Rightarrow> Some (''invalid rule '' @ showInt (int i) @ '': '' @ err)
      | None \<Rightarrow> validateRules compile (Suc i) rest)"

definition Config_Validate :: "(string \<Rightarrow> string option) \<Rightarrow> Config \<Rightarrow> string option" where
  "Config_Validate compile c =
     (if length (Rules c) = 0 then Some ''rule list cannot be empty''
      else validateRules compile 0 (Rules c))"

subsection \<open>Rule matching\<close>

text \<open>
  \<^verbatim>\<open>regexp.MatchString(pattern, text)\<close> is the parameter \<open>matchString\<close>: its boolean
  result (the error, returned together with \<^verbatim>\<open>false\<close> when the pattern does not compile, is
  discarded by both callers).
\<close>

fun ruleFromMessage :: "(string \<Rightarrow> string \<Rightarrow> bool) \<Rightarrow> Rule list \<Rightarrow> Message \<Rightarrow> Rule \<times> bool" where
  "ruleFromMessage matchString [] message = (zeroRule, False)"
| "ruleFromMessage matchString (rule # rest) message =
     (if matchString (Pattern rule) (Text message) then (rule, True)
      else ruleFromMessage matchString rest message)"

text \<open>
  The matching loop of the root \<^verbatim>\<open>main.go\<close>:
  \<^verbatim>\<open>for _, rule := range config.Rules { ok, _ := ...; if ok { matchedRule = &rule } }\<close>.
  It has no \<^verbatim>\<open>break\<close>, and \<^verbatim>\<open>go.mod\<close> declares \<^verbatim>\<open>go 1.19\<close>: \<^verbatim>\<open>rule\<close> is one variable for the
  whole loop, so a pointer taken in any iteration refers to the value assigned last. The
  state of the loop is the current value of \<^verbatim>\<open>rule\<close> and whether \<^verbatim>\<open>matchedRule\<close> has been
  set.
\<close>

fun mainMatchLoop :: "(string \<Rightarrow> string \<Rightarrow> bool) \<Rightarrow> string \<Rightarrow> Rule list \<Rightarrow> Rule \<times> bool \<Rightarrow> Rule \<times> bool" where
  "mainMatchLoop matchString chatMessage [] st = st"
| "mainMatchLoop matchString chatMessage (r # rest) (ruleVar, isSet) =
     mainMatchLoop matchString chatMessage rest
       (r, if matchString (Pattern r) chatMessage then True else isSet)"

definition mainMatchedRule :: "(string \<Rightarrow> string \<Rightarrow> bool) \<Rightarrow> Rule list \<Rightarrow> string \<Rightarrow> Rule option" where
  "mainMatchedRule matchString rules chatMessage =
     (case mainMatchLoop matchString chatMessage rules (zeroRule, False) of
        (ruleVar, isSet) \<Rightarrow> if isSet then Some ruleVar else None)"

subsection \<open>Strings (package strings)\<close>

definition hasPrefix :: "string \<Rightarrow> string \<Rightarrow> bool" where
  "hasPrefix s p = (length p \<le> length s \<and> take (length p) s = p)"

definition byteIn :: "char \<Rightarrow> nat \<Rightarrow> nat \<Rightarrow> bool" where
  "byteIn c lo hi = (lo \<le> of_char c \<and> (of_char c :: nat) \<le> hi)"

text \<open>
  \<^verbatim>\<open>unicode.IsSpace\<close> on UTF-8 bytes: the ASCII white space (tab, line feed, vertical tab,
  form feed, carriage return, space), U+0085, U+00A0, U+1680, U+2000 to U+200A, U+2028,
  U+2029, U+202F, U+205F and U+3000. \<open>leadingSpace s\<close> is the width in bytes of a
  white-space character at the start of \<open>s\<close> (0 when there is none), \<open>trailingSpace s\<close>
  the width of one at its end.
\<close>

definition asciiSpace :: "char \<Rightarrow> bool" where
  "asciiSpace c = (byteIn c 0x09 0x0D \<or> c = CHR 0x20)"

definition spaceRune2 :: "string \<Rightarrow> bool" where
  "spaceRune2 bs = (bs = [CHR 0xC2, CHR 0x85] \<or> bs = [CHR 0xC2, CHR 0xA0])"

definition spaceRune3 :: "string \<Rightarrow> bool" where
  "spaceRune3 bs =
     (bs = [CHR 0xE1, CHR 0x9A, CHR 0x80]
      \<or> (length bs = 3 \<and> take 2 bs = [CHR 0xE2, CHR 0x80] \<and> byteIn (bs ! 2) 0x80 0x8A)
      \<or> bs = [CHR 0xE2, CHR 0x80, CHR 0xA8] \<or> bs = [CHR 0xE2, CHR 0x80, CHR 0xA9]
      \<or> bs = [CHR 0xE2, CHR 0x80, CHR 0xAF] \<or> bs = [CHR 0xE2, CHR 0x81, CHR 0x9F]
      \<or> bs = [CHR 0xE3, CHR 0x80, CHR 0x80])"

definition leadingSpace :: "string \<Rightarrow> nat" where
  "leadingSpace s =
     (if s \<noteq> [] \<and> asciiSpace (hd s) then 1
      else if 2 \<le> length s \<and> spaceRune2 (take 2 s) then 2
      else if 3 \<le> length s \<and> spaceRune3 (take 3 s) then 3
      else 0)"

definition trailingSpace :: "string \<Rightarrow> nat" where
  "trailingSpace s =
     (if s \<noteq> [] \<and> asciiSpace (last s) then 1
      else if 2 \<le> length s \<and> spaceRune2 (drop (length s - 2) s) then 2
      else if 3 \<le> length s \<and> spaceRune3 (drop (length s - 3) s) then 3
      else 0)"

function trimLeft :: "string \<Rightarrow> string" where
  "trimLeft s = (if leadingSpace s = 0 then s else trimLeft (drop (leadingSpace s) s))"
  by pat_completeness auto
termination
  by (relation "measure length") (auto simp: leadingSpace_def split: if_splits)

function trimRight :: "string \<Rightarrow> string" where
  "trimRight s =
     (if trailingSpace s = 0 then s else trimRight (take (length s - trailingSpace s) s))"
  by pat_completeness auto
termination
  by (relation "measure length") (auto simp: trailingSpace_def split: if_splits)

declare trimLeft.simps [simp del] trimRight.simps [simp del]

definition TrimSpace :: "string \<Rightarrow> string" where
  "TrimSpace s = trimRight (trimLeft s)"

subsection \<open>Outcomes of a Go call\<close>

text \<open>
  A call returns a value with a \<^verbatim>\<open>nil\<close> error (\<open>Ok\<close>), returns a non-\<^verbatim>\<open>nil\<close> error
  (\<open>Err\<close>, with its message), or panics (\<open>Panic\<close>).
\<close>

datatype 'a result = Panic string | Err string | Ok 'a

definition nilDereference :: string where
  "nilDereference = ''runtime error: invalid memory address or nil pointer dereference''"

definition indexOutOfRange :: string where
  "indexOutOfRange = ''runtime error: index out of range [0] with length 0''"

subsection \<open>Command builder (telecmd.go)\<close>

text \<open>
  \<^verbatim>\<open>exec.Cmd\<close>: the fields the builder sets. \<open>Args\<close> is the whole argument vector, the name
  of the command first; \<open>Stdin\<close> is the content of the reader, \<^term>\<open>None\<close> for a \<^verbatim>\<open>nil\<close>
  reader.
\<close>

record Cmd =
  Path :: string
  Args :: "string list"
  Dir :: string
  Stdin :: "string option"
  Env :: "string list"

text \<open>\<^verbatim>\<open>filepath.Base\<close> (on Unix): the last element of a path.\<close>

definition Base :: "string \<Rightarrow> string" where
  "Base path =
     (if path = [] then ''.''
      else (let stripped = rev (dropWhile (\<lambda>c. c = CHR ''/'') (rev path));
                element = rev (takeWhile (\<lambda>c. c \<noteq> CHR ''/'') (rev stripped))
            in if element = [] then ''/'' else element))"

text \<open>
  \<^verbatim>\<open>exec.CommandContext(ctx, name, arg...)\<close>: \<open>Path\<close> is the name given, replaced, for a name
  without a directory, by the path that \<^verbatim>\<open>exec.LookPath\<close> finds for it. \<^verbatim>\<open>exec.LookPath\<close> reads
  \<^verbatim>\<open>PATH\<close> and the file system; it is the parameter \<open>lookPath\<close>: the path it returns for a
  name, empty when it finds none.
\<close>

definition CommandContext :: "(string \<Rightarrow> string) \<Rightarrow> string \<Rightarrow> string list \<Rightarrow> Cmd" where
  "CommandContext lookPath name arg =
     (let cmd = \<lparr>Path = name, Args = name # arg, Dir = [], Stdin = None, Env = []\<rparr>
      in if Base name = name then
           (if lookPath name \<noteq> [] then cmd\<lparr>Path := lookPath name\<rparr> else cmd)
         else cmd)"

definition envsFromUpdate :: "Message option \<Rightarrow> string list" where
  "envsFromUpdate message =
     (case message of
        None \<Rightarrow> []
      | Some m \<Rightarrow>
          (case Chat m of None \<Rightarrow> [] | Some c \<Rightarrow> [''TELEGRAM_CHAT_ID='' @ showInt (Chat_ID c)])
          @ (case From m of None \<Rightarrow> [] | Some u \<Rightarrow> [''TELEGRAM_FROM_USER_ID='' @ showInt (User_ID u)])
          @ (case ReplyToMessage m of
               None \<Rightarrow> []
             | Some r \<Rightarrow> [''TELEGRAM_REPLY_TO_MESSAGE_ID='' @ showInt (MessageID r),
                          ''TELEGRAM_REPLY_TO_MESSAGE_TEXT='' @ Text r]))"

text \<open>\<open>environ\<close> is what \<^verbatim>\<open>os.Environ()\<close> returns.\<close>

definition commandFromMessage ::
  "(string \<Rightarrow> string) \<Rightarrow> string list \<Rightarrow> Rule \<Rightarrow> Message option \<Rightarrow> Cmd result" where
  "commandFromMessage lookPath environ rule message =
     (case message of
        None \<Rightarrow> Panic nilDereference
      | Some m \<Rightarrow>
          (let stdin = (if UseStdin rule then Some (Text m) else None);
               args = (if UseStdin rule then Command rule else Command rule @ [''--'', Text m])
           in case args of
                [] \<Rightarrow> Panic indexOutOfRange
              | exe # cmdArgs \<Rightarrow>
                  (let cmd = CommandContext lookPath exe cmdArgs;
                       cmd = (if WorkingDirectory rule \<noteq> [] then cmd\<lparr>Dir := WorkingDirectory rule\<rparr> else cmd);
                       cmd = cmd\<lparr>Stdin := stdin\<rparr>;
                       env = environ;
                       env = env @ Environment rule;
                       env = env @ envsFromUpdate message
                   in Ok (cmd\<lparr>Env := env\<rparr>))))"

subsection \<open>Process runner (telecmd.go)\<close>

text \<open>
  What \<^verbatim>\<open>cmd.Output()\<close> returns and what \<^verbatim>\<open>ctx.Err()\<close> is afterwards. An error of
  \<^verbatim>\<open>cmd.Output()\<close> is an \<^verbatim>\<open>*exec.ExitError\<close> (exit code, captured standard error) or any other
  error (the process could not be started, its output could not be read).
\<close>

datatype CmdError = ExitError int string | OtherError string

datatype CtxError = Canceled | DeadlineExceeded

record Execution =
  out :: string
  err :: "CmdError option"
  ctxErr :: "CtxError option"

definition runCommand :: "Execution \<Rightarrow> string result" where
  "runCommand x =
     (case err x of
        None \<Rightarrow> Ok (out x)
      | Some e \<Rightarrow>
          if ctxErr x = Some DeadlineExceeded then Err ''command took too long to finish''
          else (case e of
                  ExitError code stderr \<Rightarrow>
                    Err (''command exited with code='' @ showInt code @ [CHR 0x0A, CHR 0x0A] @ stderr)
                | OtherError msg \<Rightarrow> Ok (out x)))"

subsection \<open>Output interpreter (telecmd.go)\<close>

record ReplyKeyboardRemove =
  RemoveKeyboard :: bool
  Selective :: bool

record MessageConfig =
  ChatID :: int
  ReplyToMessageID :: int
  ConfigText :: string
  ReplyMarkup :: "ReplyKeyboardRemove option"

definition NewMessage :: "int \<Rightarrow> string \<Rightarrow> MessageConfig" where
  "NewMessage chatID text = \<lparr>ChatID = chatID, ReplyToMessageID = 0, ConfigText = text, ReplyMarkup = None\<rparr>"

definition NewRemoveKeyboard :: "bool \<Rightarrow> ReplyKeyboardRemove" where
  "NewRemoveKeyboard selective = \<lparr>RemoveKeyboard = True, Selective = selective\<rparr>"

text \<open>
  A \<^verbatim>\<open>tgbotapi.Chattable\<close> holds a \<^verbatim>\<open>MessageConfig\<close> by value or by pointer; the two are
  different dynamic types.
\<close>

datatype Chattable = MessageConfigValue MessageConfig | MessageConfigPointer MessageConfig

text \<open>
  \<^verbatim>\<open>json.Unmarshal([]byte(output), &maybeMessage)\<close> is the parameter \<open>unmarshal\<close>:
  \<^term>\<open>None\<close> when it returns an error, otherwise the \<^verbatim>\<open>Message\<close> field of the decoded
  struct.
\<close>

definition chattableFromStdout :: "(string \<Rightarrow> string option) \<Rightarrow> int \<Rightarrow> string \<Rightarrow> Chattable result" where
  "chattableFromStdout unmarshal chatID output =
     (if \<not> hasPrefix (TrimSpace output) ''{'' then
        Ok (MessageConfigValue ((NewMessage chatID output)\<lparr>ReplyMarkup := Some (NewRemoveKeyboard False)\<rparr>))
      else (case unmarshal output of
              Some message \<Rightarrow>
                Ok (MessageConfigValue ((NewMessage chatID message)\<lparr>ReplyMarkup := Some (NewRemoveKeyboard False)\<rparr>))
            | None \<Rightarrow> Err ''unknown output format''))"

subsection \<open>The JSON decoder (encoding/json) on the struct of chattableFromStdout\<close>

text \<open>
  \<open>unmarshalMessage\<close> models \<^verbatim>\<open>json.Unmarshal\<close> into
  \<^verbatim>\<open>struct { Message string `json:"message"` }\<close>, following the library: the input is one
  JSON value between optional white space (space, tab, carriage return, line feed); inside
  an object every key that equals \<^verbatim>\<open>message\<close>, exactly or under case folding, stores a string
  value in the field, leaves it for \<^verbatim>\<open>null\<close> and records a type error for any other value;
  a top-level \<^verbatim>\<open>null\<close> leaves the struct as it is and any other top-level value is a type
  error. It is used to evaluate \<open>chattableFromStdout\<close> on concrete outputs; the general
  theorems hold for every decoder.
\<close>

datatype json = JNull | JBool bool | JNumber | JString string | JArray "json list"
  | JObject "(string \<times> json) list"

definition jsonSpace :: "char \<Rightarrow> bool" where
  "jsonSpace c = (c = CHR 0x20 \<or> c = CHR 0x09 \<or> c = CHR 0x0D \<or> c = CHR 0x0A)"

definition skipSpace :: "string \<Rightarrow> string" where
  "skipSpace s = dropWhile jsonSpace s"

definition isDigit :: "char \<Rightarrow> bool" where
  "isDigit c = byteIn c 0x30 0x39"

definition hexValue :: "char \<Rightarrow> nat option" where
  "hexValue c =
     (if byteIn c 0x30 0x39 then Some (of_char c - 0x30)
      else if byteIn c 0x61 0x66 then Some (of_char c - 0x61 + 10)
      else if byteIn c 0x41 0x46 then Some (of_char c - 0x41 + 10)
      else None)"

text \<open>\<^verbatim>\<open>getu4\<close>: the number written by \<^verbatim>\<open>\uXXXX\<close> at the start of \<open>s\<close>.\<close>

definition getu4 :: "string \<Rightarrow> nat option" where
  "getu4 s =
     (if length s < 6 \<or> s ! 0 \<noteq> CHR 0x5C \<or> s ! 1 \<noteq> CHR ''u'' then None
      else (case (hexValue (s ! 2), hexValue (s ! 3), hexValue (s ! 4), hexValue (s ! 5)) of
              (Some a, Some b, Some c, Some d) \<Rightarrow> Some (((a * 16 + b) * 16 + c) * 16 + d)
            | _ \<Rightarrow> None))"

definition replacementChar :: string where
  "replacementChar = [CHR 0xEF, CHR 0xBF, CHR 0xBD]"

text \<open>\<^verbatim>\<open>utf8.EncodeRune\<close>.\<close>

definition encodeRune :: "nat \<Rightarrow> string" where
  "encodeRune r =
     (if r \<le> 0x7F then [char_of r]
      else if r \<le> 0x7FF then [char_of (0xC0 + r div 64), char_of (0x80 + r mod 64)]
      else if 0x10FFFF < r \<or> (0xD800 \<le> r \<and> r \<le> 0xDFFF) then replacementChar
      else if r \<le> 0xFFFF then
        [char_of (0xE0 + r div 4096), char_of (0x80 + (r div 64) mod 64), char_of (0x80 + r mod 64)]
      else
        [char_of (0xF0 + r div 262144), char_of (0x80 + (r div 4096) mod 64),
         char_of (0x80 + (r div 64) mod 64), char_of (0x80 + r mod 64)])"

text \<open>
  \<^verbatim>\<open>utf8.DecodeRune\<close>: the width of the well-formed UTF-8 encoding at the start of \<open>s\<close>,
  0 when there is none.
\<close>

definition runeWidth :: "string \<Rightarrow> nat" where
  "runeWidth s =
     (let n = length s in
      if 1 \<le> n \<and> byteIn (s ! 0) 0x00 0x7F then 1
      else if 2 \<le> n \<and> byteIn (s ! 0) 0xC2 0xDF \<and> byteIn (s ! 1) 0x80 0xBF then 2
      else if 3 \<le> n \<and> byteIn (s ! 2) 0x80 0xBF
          \<and> (s ! 0 = CHR 0xE0 \<and> byteIn (s ! 1) 0xA0 0xBF
              \<or> byteIn (s ! 0) 0xE1 0xEC \<and> byteIn (s ! 1) 0x80 0xBF
              \<or> s ! 0 = CHR 0xED \<and> byteIn (s ! 1) 0x80 0x9F
              \<or> byteIn (s ! 0) 0xEE 0xEF \<and> byteIn (s ! 1) 0x80 0xBF) then 3
      else if 4 \<le> n \<and> byteIn (s ! 2) 0x80 0xBF \<and> byteIn (s ! 3) 0x80 0xBF
          \<and> (s ! 0 = CHR 0xF0 \<and> byteIn (s ! 1) 0x90 0xBF
              \<or> byteIn (s ! 0) 0xF1 0xF3 \<and> byteIn (s ! 1) 0x80 0xBF
              \<or> s ! 0 = CHR 0xF4 \<and> byteIn (s ! 1) 0x80 0x8F) then 4
      else 0)"

definition escapeChar :: "char \<Rightarrow> char option" where
  "escapeChar e =
     (if e = CHR 0x22 \<or> e = CHR 0x5C \<or> e = CHR ''/'' then Some e
      else if e = CHR ''b'' then Some (CHR 0x08)
      else if e = CHR ''f'' then Some (CHR 0x0C)
      else if e = CHR ''n'' then Some (CHR 0x0A)
      else if e = CHR ''r'' then Some (CHR 0x0D)
      else if e = CHR ''t'' then Some (CHR 0x09)
      else None)"

definition emit :: "string \<Rightarrow> (string \<times> string) option \<Rightarrow> (string \<times> string) option" where
  "emit bs r = (case r of None \<Rightarrow> None | Some (t, rest) \<Rightarrow> Some (bs @ t, rest))"

text \<open>
  A string literal after its opening quote: the unquoted text (\<^verbatim>\<open>unquoteBytes\<close>) and what
  follows the closing quote, or \<^term>\<open>None\<close> when the literal is not well formed.
\<close>

function scanString :: "string \<Rightarrow> (string \<times> string) option" where
  "scanString s =
     (case s of
        [] \<Rightarrow> None
      | c # cs \<Rightarrow>
          if c = CHR 0x22 then Some ([], cs)
          else if c = CHR 0x5C then
            (case cs of
               [] \<Rightarrow> None
             | e # cs' \<Rightarrow>
                 if e = CHR ''u'' then
                   (case getu4 s of
                      None \<Rightarrow> None
                    | Some rr \<Rightarrow>
                        if 0xD800 \<le> rr \<and> rr \<le> 0xDFFF then
                          (case getu4 (drop 6 s) of
                             None \<Rightarrow> emit replacementChar (scanString (drop 6 s))
                           | Some rr1 \<Rightarrow>
                               if rr < 0xDC00 \<and> 0xDC00 \<le> rr1 \<and> rr1 \<le> 0xDFFF then
                                 emit (encodeRune ((rr - 0xD800) * 1024 + (rr1 - 0xDC00) + 0x10000))
                                   (scanString (drop 12 s))
                               else emit replacementChar (scanString (drop 6 s)))
                        else emit (encodeRune rr) (scanString (drop 6 s)))
                 else (case escapeChar e of
                         None \<Rightarrow> None
                       | Some ch \<Rightarrow> emit [ch] (scanString cs')))
          else if byteIn c 0x00 0x1F then None
          else if byteIn c 0x20 0x7F then emit [c] (scanString cs)
          else if runeWidth s = 0 then emit replacementChar (scanString cs)
          else emit (take (runeWidth s) s) (scanString (drop (runeWidth s) s)))"
  by pat_completeness auto
termination
  by (relation "measure length") auto

declare scanString.simps [simp del]

text \<open>What follows a number at the start of \<open>s\<close>.\<close>

definition scanNumber :: "string \<Rightarrow> string option" where
  "scanNumber s =
     (case (if hasPrefix s ''-'' then drop 1 s else s) of
        [] \<Rightarrow> None
      | d # r \<Rightarrow>
          if \<not> isDigit d then None
          else (let afterInt = (if d = CHR ''0'' then r else dropWhile isDigit r);
                    afterFrac =
                      (if hasPrefix afterInt ''.'' then
                         (case drop 1 afterInt of
                            [] \<Rightarrow> None
                          | f # r' \<Rightarrow> if isDigit f then Some (dropWhile isDigit r') else None)
                       else Some afterInt)
                in case afterFrac of
                     None \<Rightarrow> None
                   | Some t \<Rightarrow>
                       if hasPrefix t ''e'' \<or> hasPrefix t ''E'' then
                         (case (if hasPrefix (drop 1 t) ''+'' \<or> hasPrefix (drop 1 t) ''-''
                                then drop 2 t else drop 1 t) of
                            [] \<Rightarrow> None
                          | x # r' \<Rightarrow> if isDigit x then Some (dropWhile isDigit r') else None)
                       else Some t))"

definition maxNestingDepth :: nat where
  "maxNestingDepth = 10000"

definition withRest :: "('a \<Rightarrow> 'b) \<Rightarrow> ('a \<times> string) option \<Rightarrow> ('b \<times> string) option" where
  "withRest f r = (case r of None \<Rightarrow> None | Some (x, rest) \<Rightarrow> Some (f x, rest))"

text \<open>
  One value at the start of \<open>s\<close> and what follows it. Every call reads at least one byte
  before the next one, so \<open>Suc (length s)\<close> calls are enough; \<open>depth\<close> is the number of
  arrays and objects that are open.
\<close>

fun parseValue :: "nat \<Rightarrow> nat \<Rightarrow> string \<Rightarrow> (json \<times> string) option"
  and parseElements :: "nat \<Rightarrow> nat \<Rightarrow> string \<Rightarrow> (json list \<times> string) option"
  and parseMembers :: "nat \<Rightarrow> nat \<Rightarrow> string \<Rightarrow> ((string \<times> json) list \<times> string) option" where
  "parseValue 0 depth s = None"
| "parseValue (Suc fuel) depth s =
     (case skipSpace s of
        [] \<Rightarrow> None
      | c # cs \<Rightarrow>
          if c = CHR ''{'' then
            (if maxNestingDepth \<le> depth then None
             else if hasPrefix (skipSpace cs) ''}'' then Some (JObject [], drop 1 (skipSpace cs))
             else withRest JObject (parseMembers fuel (Suc depth) cs))
          else if c = CHR ''['' then
            (if maxNestingDepth \<le> depth then None
             else if hasPrefix (skipSpace cs) '']'' then Some (JArray [], drop 1 (skipSpace cs))
             else withRest JArray (parseElements fuel (Suc depth) cs))
          else if c = CHR 0x22 then withRest JString (scanString cs)
          else if hasPrefix (c # cs) ''true'' then Some (JBool True, drop 4 (c # cs))
          else if hasPrefix (c # cs) ''false'' then Some (JBool False, drop 5 (c # cs))
          else if hasPrefix (c # cs) ''null'' then Some (JNull, drop 4 (c # cs))
          else (case scanNumber (c # cs) of None \<Rightarrow> None | Some r \<Rightarrow> Some (JNumber, r)))"
| "parseElements 0 depth s = None"
| "parseElements (Suc fuel) depth s =
     (case parseValue fuel depth s of
        None \<Rightarrow> None
      | Some (v, r) \<Rightarrow>
          if hasPrefix (skipSpace r) '','' then
            withRest (Cons v) (parseElements fuel depth (drop 1 (skipSpace r)))
          else if hasPrefix (skipSpace r) '']'' then Some ([v], drop 1 (skipSpace r))
          else None)"
| "parseMembers 0 depth s = None"
| "parseMembers (Suc fuel) depth s =
     (if \<not> hasPrefix (skipSpace s) [CHR 0x22] then None
      else (case scanString (drop 1 (skipSpace s)) of
              None \<Rightarrow> None
            | Some (key, r) \<Rightarrow>
                if \<not> hasPrefix (skipSpace r) '':'' then None
                else (case parseValue fuel depth (drop 1 (skipSpace r)) of
                        None \<Rightarrow> None
                      | Some (v, r') \<Rightarrow>
                          if hasPrefix (skipSpace r') '','' then
                            withRest (Cons (key, v)) (parseMembers fuel depth (drop 1 (skipSpace r')))
                          else if hasPrefix (skipSpace r') ''}'' then Some ([(key, v)], drop 1 (skipSpace r'))
                          else None)))"

text \<open>
  The decoder's case folding of a key against a field name in ASCII: letters match in either
  case, and the long s (U+017F) and the Kelvin sign (U+212A) of a key match \<^verbatim>\<open>s\<close> and \<^verbatim>\<open>k\<close>.
\<close>

fun equalFold :: "string \<Rightarrow> string \<Rightarrow> bool" where
  "equalFold [] t = (t = [])"
| "equalFold (sb # s) t =
     (case t of
        [] \<Rightarrow> False
      | tb # t' \<Rightarrow>
          if byteIn tb 0x00 0x7F then
            (sb = tb \<or> (byteIn sb 0x41 0x5A \<or> byteIn sb 0x61 0x7A)
                       \<and> (of_char sb :: nat) mod 32 = of_char tb mod 32
                       \<and> (byteIn tb 0x41 0x5A \<or> byteIn tb 0x61 0x7A))
            \<and> equalFold s t'
          else if sb = CHR ''s'' \<or> sb = CHR ''S'' then
            hasPrefix t [CHR 0xC5, CHR 0xBF] \<and> equalFold s (drop 2 t)
          else if sb = CHR ''k'' \<or> sb = CHR ''K'' then
            hasPrefix t [CHR 0xE2, CHR 0x84, CHR 0xAA] \<and> equalFold s (drop 3 t)
          else False)"

fun decodeMembers :: "(string \<times> json) list \<Rightarrow> string \<times> bool \<Rightarrow> string \<times> bool" where
  "decodeMembers [] st = st"
| "decodeMembers ((key, v) # rest) (message, typeError) =
     decodeMembers rest
       (if key = ''message'' \<or> equalFold ''message'' key then
          (case v of
             JString t \<Rightarrow> (t, typeError)
           | JNull \<Rightarrow> (message, typeError)
           | _ \<Rightarrow> (message, True))
        else (message, typeError))"

definition unmarshalMessage :: "string \<Rightarrow> string option" where
  "unmarshalMessage data =
     (case parseValue (Suc (length data)) 0 data of
        None \<Rightarrow> None
      | Some (v, rest) \<Rightarrow>
          if skipSpace rest \<noteq> [] then None
          else (case v of
                  JObject members \<Rightarrow>
                    (case decodeMembers members ([], False) of
                       (message, typeError) \<Rightarrow> if typeError then None else Some message)
                | JNull \<Rightarrow> Some []
                | _ \<Rightarrow> None))"

subsection \<open>Library behaviour used on concrete inputs\<close>

text \<open>
  \<^verbatim>\<open>regexp.MatchString\<close> for a pattern of ordinary characters only (no metacharacter): the
  pattern occurs somewhere in the text.
\<close>

definition literalMatch :: "string \<Rightarrow> string \<Rightarrow> bool" where
  "literalMatch pattern text = list_ex (\<lambda>i. hasPrefix (drop i text) pattern) [0..<Suc (length text)]"

text \<open>
  \<^verbatim>\<open>exec.LookPath\<close> where no directory of \<^verbatim>\<open>PATH\<close> holds the file (or \<^verbatim>\<open>PATH\<close> is not set), and
  where \<^verbatim>\<open>PATH\<close> is \<^verbatim>\<open>/bin\<close> and that directory holds the file.
\<close>

definition lookPathNotFound :: "string \<Rightarrow> string" where
  "lookPathNotFound file = []"

definition lookPathBin :: "string \<Rightarrow> string" where
  "lookPathBin file = ''/bin/'' @ file"

text \<open>
  How os/exec hands \<^verbatim>\<open>cmd.Env\<close> to the process (on Unix): of several entries with the same
  key, the last one is used. \<open>lookupEnv env k\<close> is the value the process sees for \<open>k\<close>.
\<close>

definition entryKey :: "string \<Rightarrow> string" where
  "entryKey e = takeWhile (\<lambda>c. c \<noteq> CHR ''='') e"

definition entryValue :: "string \<Rightarrow> string" where
  "entryValue e = drop 1 (dropWhile (\<lambda>c. c \<noteq> CHR ''='') e)"

fun lookupEnv :: "string list \<Rightarrow> string \<Rightarrow> string option" where
  "lookupEnv [] k = None"
| "lookupEnv (e # es) k =
     (case lookupEnv es k of
        Some v \<Rightarrow> Some v
      | None \<Rightarrow> if CHR ''='' \<in> set e \<and> entryKey e = k then Some (entryValue e) else None)"

subsection \<open>Example inputs\<close>

definition exampleRule :: "string \<Rightarrow> string list \<Rightarrow> bool \<Rightarrow> Rule" where
  "exampleRule pattern command useStdin =
     \<lparr>Name = ''example'', Pattern = pattern, WorkingDirectory = [], UseStdin = useStdin,
      Environment = [''LANG=C''], Command = command\<rparr>"

definition exampleMessage :: "string \<Rightarrow> Message" where
  "exampleMessage text =
     Message 7 (Some \<lparr>User_ID = 42, FirstName = ''Ada''\<rparr>) (Some \<lparr>Chat_ID = - 100\<rparr>) None text"

definition exampleReply :: "string \<Rightarrow> Message" where
  "exampleReply text =
     Message 8 (Some \<lparr>User_ID = 42, FirstName = ''Ada''\<rparr>) (Some \<lparr>Chat_ID = - 100\<rparr>)
       (Some (Message 3 None None None ''earlier'')) text"

definition exampleConfig :: "Rule list \<Rightarrow> Config" where
  "exampleConfig rules = \<lparr>BotToken = [], Debug = False, Rules = rules, CommandTimeout = ''10s''\<rparr>"

subsection \<open>Dispatcher: the task that Run starts for one update (telecmd.go)\<close>

text \<open>
  What the task does with one update: it ends without sending (with the reason the code
  logs, if any), or it calls \<^verbatim>\<open>bot.Send\<close> with a message. \<open>execute\<close> gives, for the
  command built, what running it produces.
\<close>

datatype Outcome =
    NoMessage
  | NoMatchingRule
  | CannotParseCommand string
  | EmptyOutput
  | CannotParseStdout string
  | Send Chattable

definition handleUpdate ::
  "(string \<Rightarrow> string \<Rightarrow> bool) \<Rightarrow> (string \<Rightarrow> string option) \<Rightarrow> (string \<Rightarrow> string) \<Rightarrow> string list
     \<Rightarrow> (Cmd \<Rightarrow> Execution) \<Rightarrow> Config \<Rightarrow> Message option \<Rightarrow> Outcome result" where
  "handleUpdate matchString unmarshal lookPath environ execute config update =
     (case update of
        None \<Rightarrow> Ok NoMessage
      | Some message \<Rightarrow>
          (case From message of
             None \<Rightarrow> Panic nilDereference
           | Some user \<Rightarrow>
               (case ruleFromMessage matchString (Rules config) message of
                  (rule, ok) \<Rightarrow>
                    if \<not> ok then Ok NoMatchingRule
                    else (case commandFromMessage lookPath environ rule update of
                            Panic p \<Rightarrow> Panic p
                          | Err e \<Rightarrow> Ok (CannotParseCommand e)
                          | Ok cmd \<Rightarrow>
                              (let output = (case runCommand (execute cmd) of
                                               Ok output \<Rightarrow> output
                                             | Err e \<Rightarrow> e
                                             | Panic p \<Rightarrow> [])
                               in if output = [] then Ok EmptyOutput
                                  else (case Chat message of
                                          None \<Rightarrow> Panic nilDereference
                                        | Some chat \<Rightarrow>
                                            (case chattableFromStdout unmarshal (Chat_ID chat) output of
                                               Panic p \<Rightarrow> Panic p
                                             | Err e \<Rightarrow> Ok (CannotParseStdout e)
                                             | Ok m \<Rightarrow>
                                                 Ok (Send (case m of
                                                             MessageConfigPointer v \<Rightarrow>
                                                               MessageConfigPointer (v\<lparr>ReplyToMessageID := MessageID message\<rparr>)
                                                           | MessageConfigValue v \<Rightarrow> m)))))))))"

section \<open>Properties\<close>

subsection \<open>Evaluation on the example inputs\<close>

lemma showInt_examples:
  "showInt (- 100) = ''-100''" "showInt 42 = ''42''" "showInt 7 = ''7''" "showInt 3 = ''3''"
  by code_simp+

lemma exampleMessage_sel:
  "Text (exampleMessage text) = text"
  "MessageID (exampleMessage text) = 7"
  "From (exampleMessage text) = Some \<lparr>User_ID = 42, FirstName = ''Ada''\<rparr>"
  "Chat (exampleMessage text) = Some \<lparr>Chat_ID = - 100\<rparr>"
  "ReplyToMessage (exampleMessage text) = None"
  by (simp_all add: exampleMessage_def)

lemma envsFromUpdate_exampleMessage:
  "envsFromUpdate (Some (exampleMessage text)) =
     [''TELEGRAM_CHAT_ID=-100'', ''TELEGRAM_FROM_USER_ID=42'']"
  by (simp add: envsFromUpdate_def exampleMessage_def showInt_examples)

lemma envsFromUpdate_exampleReply:
  "envsFromUpdate (Some (exampleReply text)) =
     [''TELEGRAM_CHAT_ID=-100'', ''TELEGRAM_FROM_USER_ID=42'',
      ''TELEGRAM_REPLY_TO_MESSAGE_ID=3'', ''TELEGRAM_REPLY_TO_MESSAGE_TEXT=earlier'']"
  by (simp add: envsFromUpdate_def exampleReply_def showInt_examples)

lemma lookupEnv_examples:
  "lookupEnv [''LANG=C''] ''LANG'' = Some ''C''"
  "lookupEnv [''LANG=C''] ''PATH'' = None"
  "lookupEnv [''LANG=en'', ''PATH=/bin''] ''PATH'' = Some ''/bin''"
  "lookupEnv [''TELEGRAM_CHAT_ID=-100'', ''TELEGRAM_FROM_USER_ID=42'',
      ''TELEGRAM_REPLY_TO_MESSAGE_ID=3'', ''TELEGRAM_REPLY_TO_MESSAGE_TEXT=earlier''] ''LANG'' = None"
  "lookupEnv [''TELEGRAM_CHAT_ID=-100'', ''TELEGRAM_FROM_USER_ID=42'',
      ''TELEGRAM_REPLY_TO_MESSAGE_ID=3'', ''TELEGRAM_REPLY_TO_MESSAGE_TEXT=earlier''] ''PATH'' = None"
  by code_simp+

lemma unmarshalMessage_examples:
  \<open>unmarshalMessage ''{"message":"hi"}'' = Some ''hi''\<close>
  \<open>unmarshalMessage ''{not valid json'' = None\<close>
  \<open>unmarshalMessage ''{}'' = Some []\<close>
  by code_simp+

lemma looksStructured_examples:
  \<open>hasPrefix (TrimSpace ''{"message":"hi"}'') ''{''\<close>
  \<open>hasPrefix (TrimSpace ''{not valid json'') ''{''\<close>
  \<open>hasPrefix (TrimSpace ''{}'') ''{''\<close>
  \<open>\<not> hasPrefix (TrimSpace ''hello world'') ''{''\<close>
  \<open>\<not> hasPrefix (TrimSpace '' hello world  '') ''{''\<close>
  by code_simp+

lemma literalMatch_same: "literalMatch ''hello'' ''hello''"
  by code_simp

lemma TrimSpace_Nil: "TrimSpace [] = []"
  by (simp add: TrimSpace_def trimLeft.simps [of "[]"] trimRight.simps [of "[]"]
      leadingSpace_def trailingSpace_def spaceRune2_def spaceRune3_def)

lemma literalMatch_hello: "literalMatch ''hello'' ''hello world''"
  by code_simp

lemma literalMatch_world: "literalMatch ''world'' ''hello world''"
  by code_simp

subsection \<open>Rule matching\<close>

lemma ruleFromMessage_find:
  "ruleFromMessage matchString rules message =
     (case find (\<lambda>r. matchString (Pattern r) (Text message)) rules of
        Some r \<Rightarrow> (r, True)
      | None \<Rightarrow> (zeroRule, False))"
  by (induction rules) auto

text \<open>
  \<open>ruleFromMessage\<close> of \<^verbatim>\<open>telecmd.go\<close> is first-match: the rule it returns matches, and no
  rule before it in the list does.
\<close>

lemma ruleFromMessage_first_match:
  assumes "ruleFromMessage matchString rules message = (rule, True)"
  shows "\<exists>i<length rules. rules ! i = rule \<and> matchString (Pattern rule) (Text message)
           \<and> (\<forall>j<i. \<not> matchString (Pattern (rules ! j)) (Text message))"
  using assms by (auto simp: ruleFromMessage_find find_Some_iff split: option.splits)

lemma ruleFromMessage_found_iff:
  "snd (ruleFromMessage matchString rules message)
     \<longleftrightarrow> (\<exists>r\<in>set rules. matchString (Pattern r) (Text message))"
  by (induction rules) auto

lemma mainMatchLoop_result:
  "mainMatchLoop matchString chatMessage rules (v, b) =
     (if rules = [] then v else last rules,
      b \<or> (\<exists>r\<in>set rules. matchString (Pattern r) chatMessage))"
  by (induction rules arbitrary: v b) auto

text \<open>
  The loop of the root \<^verbatim>\<open>main.go\<close> runs the last rule of the list as soon as any rule
  matches.
\<close>

lemma mainMatchedRule_last:
  "mainMatchedRule matchString rules chatMessage =
     (if \<exists>r\<in>set rules. matchString (Pattern r) chatMessage then Some (last rules) else None)"
  by (auto simp: mainMatchedRule_def mainMatchLoop_result)

text \<open>
  C1 (the matcher returns the first rule, in configuration order, whose pattern matches).
  With two rules that both match \<^verbatim>\<open>hello world\<close>, the loop of the root \<^verbatim>\<open>main.go\<close> selects
  the second one, where \<open>ruleFromMessage\<close> of \<^verbatim>\<open>telecmd.go\<close> returns the first.
\<close>

theorem C1_main_selects_last_rule:
  "literalMatch (Pattern (exampleRule ''hello'' [''first''] False)) ''hello world''
   \<and> literalMatch (Pattern (exampleRule ''world'' [''second''] False)) ''hello world''
   \<and> mainMatchedRule literalMatch
        [exampleRule ''hello'' [''first''] False, exampleRule ''world'' [''second''] False]
        ''hello world''
      = Some (exampleRule ''world'' [''second''] False)
   \<and> ruleFromMessage literalMatch
        [exampleRule ''hello'' [''first''] False, exampleRule ''world'' [''second''] False]
        (exampleMessage ''hello world'')
      = (exampleRule ''hello'' [''first''] False, True)"
  using literalMatch_hello literalMatch_world
  by (simp add: mainMatchedRule_def exampleRule_def exampleMessage_def)

subsection \<open>Configuration validation\<close>

text \<open>
  C10 (validation rejects an empty rule list, although no rule fails its own check): a
  configuration with no rule is refused with the error \<^verbatim>\<open>rule list cannot be empty\<close>.
\<close>

theorem C10_empty_rule_list_rejected:
  "length (Rules c) = 0 \<Longrightarrow>
     Config_Validate compile c = Some ''rule list cannot be empty''
     \<and> (\<forall>r\<in>set (Rules c). Rule_Validate compile r = None)"
  by (simp add: Config_Validate_def)

theorem C10_empty_rule_list_rejected_witness:
  "length (Rules (exampleConfig [])) = 0
   \<and> Config_Validate (\<lambda>p. None) (exampleConfig []) = Some ''rule list cannot be empty''"
  using C10_empty_rule_list_rejected [of "exampleConfig []" "\<lambda>p. None"]
  by (simp add: exampleConfig_def)

subsection \<open>Command builder\<close>

lemma commandFromMessage_args:
  "commandFromMessage lookPath environ rule (Some m) =
     (case (if UseStdin rule then Command rule else Command rule @ [''--'', Text m]) of
        [] \<Rightarrow> Panic indexOutOfRange
      | exe # cmdArgs \<Rightarrow>
          Ok \<lparr>Path = (if Base exe = exe \<and> lookPath exe \<noteq> [] then lookPath exe else exe),
              Args = exe # cmdArgs, Dir = WorkingDirectory rule,
              Stdin = (if UseStdin rule then Some (Text m) else None),
              Env = environ @ Environment rule @ envsFromUpdate (Some m)\<rparr>)"
  by (simp add: commandFromMessage_def CommandContext_def Let_def split: list.splits)

text \<open>
  The executable: a name without a directory is replaced by the path the lookup finds; a
  name with a directory, or one the lookup does not find, is kept.
\<close>

lemma CommandContext_examples:
  "CommandContext lookPathBin ''echo'' [''-n''] =
     \<lparr>Path = ''/bin/echo'', Args = [''echo'', ''-n''], Dir = [], Stdin = None, Env = []\<rparr>"
  "CommandContext lookPathBin ''./run.sh'' [] =
     \<lparr>Path = ''./run.sh'', Args = [''./run.sh''], Dir = [], Stdin = None, Env = []\<rparr>"
  "CommandContext lookPathNotFound ''echo'' [''-n''] =
     \<lparr>Path = ''echo'', Args = [''echo'', ''-n''], Dir = [], Stdin = None, Env = []\<rparr>"
  by code_simp+

lemma commandFromMessage_lookup_example:
  "commandFromMessage lookPathBin [''PATH=/bin''] (exampleRule ''hello'' [''echo'', ''-n''] False)
     (Some (exampleMessage ''hi'')) =
   Ok \<lparr>Path = ''/bin/echo'', Args = [''echo'', ''-n'', ''--'', ''hi''], Dir = [], Stdin = None,
        Env = [''PATH=/bin'', ''LANG=C'', ''TELEGRAM_CHAT_ID=-100'', ''TELEGRAM_FROM_USER_ID=42'']\<rparr>"
proof -
  have "Base ''echo'' = ''echo''"
    by code_simp
  then show ?thesis
    by (simp add: commandFromMessage_args envsFromUpdate_exampleMessage exampleMessage_sel
        exampleRule_def lookPathBin_def)
qed

text \<open>
  C4 (the builder fails with a BuildError exactly when the rule's command is empty), as
  stated, fails: for a rule with an empty command and \<^verbatim>\<open>useStdin\<close> false the builder
  returns an invocation, whose executable is the separator \<^verbatim>\<open>--\<close>, and no error.
\<close>

theorem C4_empty_command_builds_without_error:
  "Command (exampleRule ''hello'' [] False) = []
   \<and> commandFromMessage lookPathNotFound [] (exampleRule ''hello'' [] False) (Some (exampleMessage ''hello''))
      = Ok \<lparr>Path = ''--'', Args = [''--'', ''hello''], Dir = [], Stdin = None,
             Env = [''LANG=C'', ''TELEGRAM_CHAT_ID=-100'', ''TELEGRAM_FROM_USER_ID=42'']\<rparr>"
  by (simp add: commandFromMessage_args envsFromUpdate_exampleMessage exampleMessage_sel
      exampleRule_def lookPathNotFound_def)

text \<open>
  C4, amended: the builder never returns an error; for every rule with a non-empty command
  it returns an invocation; a rule with an empty command is refused earlier, by
  \<open>Rule_Validate\<close>.
\<close>

theorem C4_builder_never_returns_error:
  "(\<forall>e. commandFromMessage lookPath environ rule message \<noteq> Err e)
   \<and> (Command rule \<noteq> [] \<longrightarrow> (\<exists>cmd. commandFromMessage lookPath environ rule (Some m) = Ok cmd))
   \<and> (Command rule = [] \<longrightarrow> Rule_Validate compile rule \<noteq> None)"
proof (intro conjI allI impI)
  fix e
  show "commandFromMessage lookPath environ rule message \<noteq> Err e"
    by (cases message) (auto simp: commandFromMessage_def Let_def split: list.splits)
next
  assume "Command rule \<noteq> []"
  then show "\<exists>cmd. commandFromMessage lookPath environ rule (Some m) = Ok cmd"
    by (cases "Command rule") (auto simp: commandFromMessage_args)
next
  assume "Command rule = []"
  then show "Rule_Validate compile rule \<noteq> None"
    by (simp add: Rule_Validate_def split: option.splits)
qed

theorem C4_builder_never_returns_error_witness:
  "Command (exampleRule ''hello'' [''echo''] True) \<noteq> []
   \<and> (\<exists>cmd. commandFromMessage lookPathNotFound [] (exampleRule ''hello'' [''echo''] True)
               (Some (exampleMessage ''hello'')) = Ok cmd)
   \<and> Command (exampleRule ''hello'' [] True) = []
   \<and> Rule_Validate (\<lambda>p. None) (exampleRule ''hello'' [] True) \<noteq> None"
  using C4_builder_never_returns_error
    [of lookPathNotFound "[]" "exampleRule ''hello'' [''echo''] True"
        "Some (exampleMessage ''hello'')" "exampleMessage ''hello''" "\<lambda>p. None"]
    C4_builder_never_returns_error
    [of lookPathNotFound "[]" "exampleRule ''hello'' [] True"
        "Some (exampleMessage ''hello'')" "exampleMessage ''hello''" "\<lambda>p. None"]
  by (simp add: exampleRule_def)

text \<open>
  C5 (with \<^verbatim>\<open>useStdin\<close> false the arguments are the rule's fixed arguments, the separator
  \<^verbatim>\<open>--\<close>, then the message text, unchanged, as the last argument; no standard input): for a
  rule whose command is not empty, as the data model requires. The argument vector is the
  rule's command followed by the separator and the text, whatever the lookup of the
  executable gives.
\<close>

theorem C5_text_is_final_argument:
  assumes "\<not> UseStdin rule" and "Command rule \<noteq> []"
  shows "\<exists>cmd. commandFromMessage lookPath environ rule (Some m) = Ok cmd
           \<and> Args cmd = Command rule @ [''--'', Text m]
           \<and> tl (Args cmd) = tl (Command rule) @ [''--'', Text m]
           \<and> last (Args cmd) = Text m
           \<and> Stdin cmd = None"
  using assms by (cases "Command rule") (simp_all add: commandFromMessage_args)

theorem C5_text_is_final_argument_witness:
  "\<not> UseStdin (exampleRule ''hello'' [''echo'', ''-n''] False)
   \<and> Command (exampleRule ''hello'' [''echo'', ''-n''] False) \<noteq> []
   \<and> (\<exists>cmd. commandFromMessage lookPathBin [''PATH=/bin''] (exampleRule ''hello'' [''echo'', ''-n''] False)
               (Some (exampleMessage ''hello; rm -rf $HOME'')) = Ok cmd
          \<and> Args cmd = [''echo'', ''-n'', ''--'', ''hello; rm -rf $HOME'']
          \<and> tl (Args cmd) = [''-n'', ''--'', ''hello; rm -rf $HOME'']
          \<and> last (Args cmd) = ''hello; rm -rf $HOME''
          \<and> Stdin cmd = None)"
  using C5_text_is_final_argument
    [of "exampleRule ''hello'' [''echo'', ''-n''] False" lookPathBin "[''PATH=/bin'']"
        "exampleMessage ''hello; rm -rf $HOME''"]
  by (simp add: exampleRule_def exampleMessage_sel)

text \<open>
  C6 (with \<^verbatim>\<open>useStdin\<close> true the text does not appear in the argument list), as stated,
  fails: the builder leaves the rule's own arguments as they are, so a rule whose fixed
  arguments contain the very text of the message has it among the arguments.
\<close>

theorem C6_text_among_fixed_arguments:
  "UseStdin (exampleRule ''hi'' [''grep'', ''hi''] True)
   \<and> commandFromMessage lookPathNotFound [] (exampleRule ''hi'' [''grep'', ''hi''] True) (Some (exampleMessage ''hi''))
      = Ok \<lparr>Path = ''grep'', Args = [''grep'', ''hi''], Dir = [], Stdin = Some ''hi'',
             Env = [''LANG=C'', ''TELEGRAM_CHAT_ID=-100'', ''TELEGRAM_FROM_USER_ID=42'']\<rparr>
   \<and> Text (exampleMessage ''hi'') \<in> set (tl [''grep'', ''hi''])"
  by (simp add: commandFromMessage_args envsFromUpdate_exampleMessage exampleMessage_sel
      exampleRule_def lookPathNotFound_def)

text \<open>
  C6, amended: with \<^verbatim>\<open>useStdin\<close> true the message text is the standard input, unchanged, and
  the argument vector is the rule's command with nothing appended; the text is among the
  arguments only if the rule's own command holds it.
\<close>

theorem C6_text_on_stdin_only:
  assumes "UseStdin rule" and "Command rule \<noteq> []"
  shows "\<exists>cmd. commandFromMessage lookPath environ rule (Some m) = Ok cmd
           \<and> Stdin cmd = Some (Text m)
           \<and> Args cmd = Command rule
           \<and> (Text m \<in> set (tl (Args cmd)) \<longleftrightarrow> Text m \<in> set (tl (Command rule)))"
  using assms by (cases "Command rule") (simp_all add: commandFromMessage_args)

theorem C6_text_on_stdin_only_witness:
  "UseStdin (exampleRule ''hello'' [''cat'', ''-A''] True)
   \<and> Command (exampleRule ''hello'' [''cat'', ''-A''] True) \<noteq> []
   \<and> (\<exists>cmd. commandFromMessage lookPathNotFound [] (exampleRule ''hello'' [''cat'', ''-A''] True)
               (Some (exampleMessage ''hello'')) = Ok cmd
          \<and> Stdin cmd = Some ''hello''
          \<and> Args cmd = [''cat'', ''-A'']
          \<and> ''hello'' \<notin> set (tl (Args cmd)))"
  using C6_text_on_stdin_only
    [of "exampleRule ''hello'' [''cat'', ''-A''] True" lookPathNotFound "[]" "exampleMessage ''hello''"]
  by (auto simp add: exampleRule_def exampleMessage_sel)

subsection \<open>Environment of the invocation\<close>

lemma lookupEnv_append:
  "lookupEnv (a @ b) k = (case lookupEnv b k of Some v \<Rightarrow> Some v | None \<Rightarrow> lookupEnv a k)"
  by (induction a) (auto split: option.splits)

text \<open>
  C7 (the environment is the inherited environment, then the rule's entries, then the
  entries derived from the message: conversation id, sender id and, for a reply, the id and
  text of the message replied to; later entries shadow earlier ones): for a message that
  carries its conversation and its sender, as the data model requires.
\<close>

theorem C7_environment_layers:
  assumes "Chat m = Some c" and "From m = Some u" and "Command rule \<noteq> []"
  shows "\<exists>cmd. commandFromMessage lookPath environ rule (Some m) = Ok cmd
           \<and> Env cmd = environ @ Environment rule
               @ [''TELEGRAM_CHAT_ID='' @ showInt (Chat_ID c),
                  ''TELEGRAM_FROM_USER_ID='' @ showInt (User_ID u)]
               @ (case ReplyToMessage m of
                    None \<Rightarrow> []
                  | Some r \<Rightarrow> [''TELEGRAM_REPLY_TO_MESSAGE_ID='' @ showInt (MessageID r),
                               ''TELEGRAM_REPLY_TO_MESSAGE_TEXT='' @ Text r])
           \<and> (\<forall>k. lookupEnv (Env cmd) k =
                 (case lookupEnv (envsFromUpdate (Some m)) k of
                    Some v \<Rightarrow> Some v
                  | None \<Rightarrow> (case lookupEnv (Environment rule) k of
                               Some v \<Rightarrow> Some v
                             | None \<Rightarrow> lookupEnv environ k)))"
proof -
  obtain exe rest where c: "Command rule = exe # rest"
    using assms(3) by (cases "Command rule") auto
  have "\<exists>cmd. commandFromMessage lookPath environ rule (Some m) = Ok cmd
          \<and> Env cmd = environ @ Environment rule @ envsFromUpdate (Some m)"
    using c by (simp add: commandFromMessage_args)
  then obtain cmd where ok: "commandFromMessage lookPath environ rule (Some m) = Ok cmd"
    and env: "Env cmd = environ @ Environment rule @ envsFromUpdate (Some m)"
    by blast
  have derived: "envsFromUpdate (Some m) =
      [''TELEGRAM_CHAT_ID='' @ showInt (Chat_ID c), ''TELEGRAM_FROM_USER_ID='' @ showInt (User_ID u)]
      @ (case ReplyToMessage m of
           None \<Rightarrow> []
         | Some r \<Rightarrow> [''TELEGRAM_REPLY_TO_MESSAGE_ID='' @ showInt (MessageID r),
                      ''TELEGRAM_REPLY_TO_MESSAGE_TEXT='' @ Text r])"
    using assms(1,2) by (simp add: envsFromUpdate_def)
  have look: "lookupEnv (Env cmd) k =
      (case lookupEnv (envsFromUpdate (Some m)) k of
         Some v \<Rightarrow> Some v
       | None \<Rightarrow> (case lookupEnv (Environment rule) k of
                    Some v \<Rightarrow> Some v
                  | None \<Rightarrow> lookupEnv environ k))" for k
    unfolding env by (simp add: lookupEnv_append split: option.splits)
  show ?thesis
    using ok env derived look by (intro exI [of _ cmd]) simp
qed

theorem C7_environment_layers_witness:
  "Chat (exampleReply ''hello'') = Some \<lparr>Chat_ID = - 100\<rparr>
   \<and> From (exampleReply ''hello'') = Some \<lparr>User_ID = 42, FirstName = ''Ada''\<rparr>
   \<and> Command (exampleRule ''hello'' [''echo''] False) \<noteq> []
   \<and> (\<exists>cmd. commandFromMessage lookPathBin [''LANG=en'', ''PATH=/bin''] (exampleRule ''hello'' [''echo''] False)
               (Some (exampleReply ''hello'')) = Ok cmd
          \<and> Env cmd = [''LANG=en'', ''PATH=/bin'', ''LANG=C'',
                        ''TELEGRAM_CHAT_ID=-100'', ''TELEGRAM_FROM_USER_ID=42'',
                        ''TELEGRAM_REPLY_TO_MESSAGE_ID=3'', ''TELEGRAM_REPLY_TO_MESSAGE_TEXT=earlier'']
          \<and> lookupEnv (Env cmd) ''LANG'' = Some ''C''
          \<and> lookupEnv (Env cmd) ''PATH'' = Some ''/bin'')"
proof -
  have chat: "Chat (exampleReply ''hello'') = Some \<lparr>Chat_ID = - 100\<rparr>"
    and user: "From (exampleReply ''hello'') = Some \<lparr>User_ID = 42, FirstName = ''Ada''\<rparr>"
    and reply: "ReplyToMessage (exampleReply ''hello'') = Some (Message 3 None None None ''earlier'')"
    by (simp_all add: exampleReply_def)
  have command: "Command (exampleRule ''hello'' [''echo''] False) \<noteq> []"
    and env: "Environment (exampleRule ''hello'' [''echo''] False) = [''LANG=C'']"
    by (simp_all add: exampleRule_def)
  from C7_environment_layers [OF chat user command, of lookPathBin "[''LANG=en'', ''PATH=/bin'']"]
  obtain cmd where
    ok: "commandFromMessage lookPathBin [''LANG=en'', ''PATH=/bin''] (exampleRule ''hello'' [''echo''] False)
           (Some (exampleReply ''hello'')) = Ok cmd"
    and layers: "Env cmd = [''LANG=en'', ''PATH=/bin''] @ Environment (exampleRule ''hello'' [''echo''] False)
        @ [''TELEGRAM_CHAT_ID='' @ showInt (Chat_ID \<lparr>Chat_ID = - 100\<rparr>),
           ''TELEGRAM_FROM_USER_ID='' @ showInt (User_ID \<lparr>User_ID = 42, FirstName = ''Ada''\<rparr>)]
        @ (case ReplyToMessage (exampleReply ''hello'') of
             None \<Rightarrow> []
           | Some r \<Rightarrow> [''TELEGRAM_REPLY_TO_MESSAGE_ID='' @ showInt (MessageID r),
                        ''TELEGRAM_REPLY_TO_MESSAGE_TEXT='' @ Text r])"
    and look: "\<And>k. lookupEnv (Env cmd) k =
        (case lookupEnv (envsFromUpdate (Some (exampleReply ''hello''))) k of
           Some v \<Rightarrow> Some v
         | None \<Rightarrow> (case lookupEnv (Environment (exampleRule ''hello'' [''echo''] False)) k of
                      Some v \<Rightarrow> Some v
                    | None \<Rightarrow> lookupEnv [''LANG=en'', ''PATH=/bin''] k))"
    by blast
  have "Env cmd = [''LANG=en'', ''PATH=/bin'', ''LANG=C'',
                   ''TELEGRAM_CHAT_ID=-100'', ''TELEGRAM_FROM_USER_ID=42'',
                   ''TELEGRAM_REPLY_TO_MESSAGE_ID=3'', ''TELEGRAM_REPLY_TO_MESSAGE_TEXT=earlier'']"
    using layers by (simp add: env reply showInt_examples)
  moreover have "lookupEnv (Env cmd) ''LANG'' = Some ''C''"
    unfolding look env envsFromUpdate_exampleReply lookupEnv_examples by simp
  moreover have "lookupEnv (Env cmd) ''PATH'' = Some ''/bin''"
    unfolding look env envsFromUpdate_exampleReply lookupEnv_examples by simp
  ultimately show ?thesis
    using chat user command ok by blast
qed

subsection \<open>Output interpreter and dispatcher\<close>

text \<open>
  C8 (output whose trimmed form begins with \<^verbatim>\<open>{\<close> and that decodes gives the decoded
  \<^verbatim>\<open>message\<close> field as the reply body; output that does not begin so is the reply body as it
  is, untrimmed), for every decoder.
\<close>

theorem C8_reply_body:
  "(\<not> hasPrefix (TrimSpace output) ''{'' \<longrightarrow>
      chattableFromStdout unmarshal chatID output =
        Ok (MessageConfigValue \<lparr>ChatID = chatID, ReplyToMessageID = 0, ConfigText = output,
              ReplyMarkup = Some \<lparr>RemoveKeyboard = True, Selective = False\<rparr>\<rparr>))
   \<and> (hasPrefix (TrimSpace output) ''{'' \<and> unmarshal output = Some message \<longrightarrow>
      chattableFromStdout unmarshal chatID output =
        Ok (MessageConfigValue \<lparr>ChatID = chatID, ReplyToMessageID = 0, ConfigText = message,
              ReplyMarkup = Some \<lparr>RemoveKeyboard = True, Selective = False\<rparr>\<rparr>))"
  by (simp add: chattableFromStdout_def NewMessage_def NewRemoveKeyboard_def)

theorem C8_reply_body_witness:
  \<open>hasPrefix (TrimSpace ''{"message":"hi"}'') ''{''
   \<and> unmarshalMessage ''{"message":"hi"}'' = Some ''hi''
   \<and> chattableFromStdout unmarshalMessage (- 100) ''{"message":"hi"}'' =
        Ok (MessageConfigValue \<lparr>ChatID = - 100, ReplyToMessageID = 0, ConfigText = ''hi'',
              ReplyMarkup = Some \<lparr>RemoveKeyboard = True, Selective = False\<rparr>\<rparr>)
   \<and> \<not> hasPrefix (TrimSpace ''hello world'') ''{''
   \<and> chattableFromStdout unmarshalMessage (- 100) ''hello world'' =
        Ok (MessageConfigValue \<lparr>ChatID = - 100, ReplyToMessageID = 0, ConfigText = ''hello world'',
              ReplyMarkup = Some \<lparr>RemoveKeyboard = True, Selective = False\<rparr>\<rparr>)
   \<and> \<not> hasPrefix (TrimSpace '' hello world  '') ''{''
   \<and> chattableFromStdout unmarshalMessage (- 100) '' hello world  '' =
        Ok (MessageConfigValue \<lparr>ChatID = - 100, ReplyToMessageID = 0, ConfigText = '' hello world  '',
              ReplyMarkup = Some \<lparr>RemoveKeyboard = True, Selective = False\<rparr>\<rparr>)\<close>
  using C8_reply_body [of \<open>''{"message":"hi"}''\<close> unmarshalMessage "- 100" "''hi''"]
    C8_reply_body [of "''hello world''" unmarshalMessage "- 100"]
    C8_reply_body [of "'' hello world  ''" unmarshalMessage "- 100"]
  by (simp add: unmarshalMessage_examples looksStructured_examples)

text \<open>The output interpreter returns a message or an error on every output; it never panics.\<close>

lemma chattableFromStdout_no_panic:
  "chattableFromStdout unmarshal chatID output \<noteq> Panic p"
  by (simp add: chattableFromStdout_def split: option.splits)

lemma handleUpdate_steps:
  assumes "From message = Some user"
    and "ruleFromMessage matchString (Rules config) message = (rule, True)"
    and "commandFromMessage lookPath environ rule (Some message) = Ok cmd"
  shows "handleUpdate matchString unmarshal lookPath environ execute config (Some message) =
     (let output = (case runCommand (execute cmd) of Ok output \<Rightarrow> output | Err e \<Rightarrow> e | Panic p \<Rightarrow> [])
      in if output = [] then Ok EmptyOutput
         else (case Chat message of
                 None \<Rightarrow> Panic nilDereference
               | Some chat \<Rightarrow>
                   (case chattableFromStdout unmarshal (Chat_ID chat) output of
                      Panic p \<Rightarrow> Panic p
                    | Err e \<Rightarrow> Ok (CannotParseStdout e)
                    | Ok m \<Rightarrow> Ok (Send (case m of
                                          MessageConfigPointer v \<Rightarrow>
                                            MessageConfigPointer (v\<lparr>ReplyToMessageID := MessageID message\<rparr>)
                                        | MessageConfigValue v \<Rightarrow> m)))))"
  using assms by (simp add: handleUpdate_def)

lemma example_pipeline:
  "From (exampleMessage ''hello'') = Some \<lparr>User_ID = 42, FirstName = ''Ada''\<rparr>"
  "Chat (exampleMessage ''hello'') = Some \<lparr>Chat_ID = - 100\<rparr>"
  "ruleFromMessage literalMatch (Rules (exampleConfig [exampleRule ''hello'' [''echo''] False]))
     (exampleMessage ''hello'') = (exampleRule ''hello'' [''echo''] False, True)"
  "commandFromMessage lookPathNotFound [] (exampleRule ''hello'' [''echo''] False) (Some (exampleMessage ''hello'')) =
     Ok \<lparr>Path = ''echo'', Args = [''echo'', ''--'', ''hello''], Dir = [], Stdin = None,
          Env = [''LANG=C'', ''TELEGRAM_CHAT_ID=-100'', ''TELEGRAM_FROM_USER_ID=42'']\<rparr>"
  using literalMatch_same
  by (simp_all add: exampleMessage_sel exampleConfig_def commandFromMessage_args
      envsFromUpdate_exampleMessage exampleRule_def lookPathNotFound_def)

text \<open>
  C9 (output whose trimmed form begins with \<^verbatim>\<open>{\<close> and that does not decode gives the error
  \<^verbatim>\<open>unknown output format\<close>, and the task ends without sending a reply).
\<close>

theorem C9_unknown_output_format:
  assumes "hasPrefix (TrimSpace output) ''{''" and "unmarshal output = None"
  shows "chattableFromStdout unmarshal chatID output = Err ''unknown output format''
     \<and> (From message = Some user \<and> Chat message = Some chat
          \<and> ruleFromMessage matchString (Rules config) message = (rule, True)
          \<and> commandFromMessage lookPath environ rule (Some message) = Ok cmd
          \<and> runCommand (execute cmd) = Ok output
        \<longrightarrow> handleUpdate matchString unmarshal lookPath environ execute config (Some message)
              = Ok (CannotParseStdout ''unknown output format''))"
proof -
  have e: "chattableFromStdout unmarshal c output = Err ''unknown output format''" for c
    using assms by (simp add: chattableFromStdout_def)
  have ne: "output \<noteq> []"
    using assms(1) by (auto simp: TrimSpace_Nil hasPrefix_def)
  show ?thesis
    using e ne by (auto simp: handleUpdate_steps)
qed

theorem C9_unknown_output_format_witness:
  "hasPrefix (TrimSpace ''{not valid json'') ''{''
   \<and> unmarshalMessage ''{not valid json'' = None
   \<and> chattableFromStdout unmarshalMessage (- 100) ''{not valid json'' = Err ''unknown output format''
   \<and> handleUpdate literalMatch unmarshalMessage lookPathNotFound []
        (\<lambda>cmd. \<lparr>out = ''{not valid json'', err = None, ctxErr = None\<rparr>)
        (exampleConfig [exampleRule ''hello'' [''echo''] False]) (Some (exampleMessage ''hello''))
      = Ok (CannotParseStdout ''unknown output format'')"
proof -
  have run: "runCommand ((\<lambda>cmd. \<lparr>out = ''{not valid json'', err = None, ctxErr = None\<rparr>) cmd)
      = Ok ''{not valid json''" for cmd :: Cmd
    by (simp add: runCommand_def)
  note C9_unknown_output_format
    [of "''{not valid json''" unmarshalMessage "- 100" "exampleMessage ''hello''" _ _ literalMatch
       "exampleConfig [exampleRule ''hello'' [''echo''] False]" _ lookPathNotFound "[]" _
       "\<lambda>cmd. \<lparr>out = ''{not valid json'', err = None, ctxErr = None\<rparr>",
     OF looksStructured_examples(2) unmarshalMessage_examples(2)]
  then
  show ?thesis
    using example_pipeline run looksStructured_examples(2) unmarshalMessage_examples(2) by simp
qed

text \<open>
  C2 (an empty reply body is never sent). The check \<^verbatim>\<open>output == ""\<close> of \<^verbatim>\<open>Run\<close> stops an empty
  output, but a command that prints \<^verbatim>\<open>{}\<close> passes it, decodes to an empty \<^verbatim>\<open>message\<close> field, and
  \<^verbatim>\<open>bot.Send\<close> is called with an empty text.
\<close>

theorem C2_blank_reply_sent:
  "handleUpdate literalMatch unmarshalMessage lookPathNotFound [] (\<lambda>cmd. \<lparr>out = ''{}'', err = None, ctxErr = None\<rparr>)
     (exampleConfig [exampleRule ''hello'' [''echo''] False]) (Some (exampleMessage ''hello''))
   = Ok (Send (MessageConfigValue \<lparr>ChatID = - 100, ReplyToMessageID = 0, ConfigText = [],
                ReplyMarkup = Some \<lparr>RemoveKeyboard = True, Selective = False\<rparr>\<rparr>))
   \<and> handleUpdate literalMatch unmarshalMessage lookPathNotFound [] (\<lambda>cmd. \<lparr>out = [], err = None, ctxErr = None\<rparr>)
     (exampleConfig [exampleRule ''hello'' [''echo''] False]) (Some (exampleMessage ''hello''))
   = Ok EmptyOutput"
  by (simp add: handleUpdate_steps [OF example_pipeline(1) example_pipeline(3) example_pipeline(4)]
      example_pipeline(2) runCommand_def chattableFromStdout_def looksStructured_examples
      unmarshalMessage_examples NewMessage_def NewRemoveKeyboard_def)

subsection \<open>Process runner\<close>

text \<open>
  C3 (a process that cannot be started is reported as a launch error of its own, not as a
  success). An error of \<^verbatim>\<open>cmd.Output()\<close> that is neither a timeout nor an \<^verbatim>\<open>*exec.ExitError\<close> falls
  through both branches of \<open>runCommand\<close>, which returns the (empty) output and no error, as it
  does for a command that ran and printed nothing.
\<close>

theorem C3_launch_failure_is_success:
  "runCommand \<lparr>out = [], err = Some (OtherError ''fork/exec /bin/nope: no such file or directory''),
       ctxErr = None\<rparr> = Ok []
   \<and> runCommand \<lparr>out = [], err = None, ctxErr = None\<rparr> = Ok []
   \<and> handleUpdate literalMatch unmarshalMessage lookPathNotFound []
        (\<lambda>cmd. \<lparr>out = [], err = Some (OtherError ''fork/exec /bin/nope: no such file or directory''),
                 ctxErr = None\<rparr>)
        (exampleConfig [exampleRule ''hello'' [''echo''] False]) (Some (exampleMessage ''hello''))
      = Ok EmptyOutput"
  by (simp add: handleUpdate_steps [OF example_pipeline(1) example_pipeline(3) example_pipeline(4)]
      runCommand_def)

end
